theory Spec2Isabelle
  imports Main "HOL-Library.Word"
begin

section \<open>Python values shared by both modules\<close>

text \<open>
  \<open>bytes\<close> objects are lists of octets. Python \<open>str\<close> values are modelled by their UTF-8
  encoding, so the Korean halves of the source's messages appear as the octets of their encoding.
  Python \<open>float\<close> is kept abstract as the type variable \<open>'f\<close>: the code below only passes
  floats along, formats them and tests them for truth.
\<close>

type_synonym bytes = "8 word list"

text \<open>
  Exceptions are values. \<open>RuntimeError\<close> and \<open>ValueError\<close> are the two classes that the
  repository raises itself; \<open>OtherError cls msg\<close> is any other exception that a vendor backend
  raises (class name and message).
\<close>

datatype py_exn = RuntimeError string | ValueError string | OtherError string string

text \<open>A \<open>dict\<close> keeps its keys in insertion order; assigning to an existing key keeps its place.\<close>

type_synonym ('k, 'v) dict = "('k \<times> 'v) list"

fun dict_set :: "('k, 'v) dict \<Rightarrow> 'k \<Rightarrow> 'v \<Rightarrow> ('k, 'v) dict" where
  "dict_set [] k v = [(k, v)]"
| "dict_set ((k', v') # d) k v = (if k' = k then (k, v) # d else (k', v') # dict_set d k v)"

definition dict_get :: "('k, 'v) dict \<Rightarrow> 'k \<Rightarrow> 'v option" where
  "dict_get d k = map_of d k"

definition dict_values :: "('k, 'v) dict \<Rightarrow> 'v list" where
  "dict_values d = map snd d"

definition dict_keys :: "('k, 'v) dict \<Rightarrow> 'k list" where
  "dict_keys d = map fst d"

section \<open>The engine contract (engines/base.py) and its plugins (engines/melo.py, engines/edge.py)\<close>

datatype engine_status = AVAILABLE | NOT_INSTALLED | ERROR

record 'f synthesis_result =
  audio_bytes :: bytes
  sample_rate :: int
  duration :: 'f
  voice :: string
  cached :: bool

text \<open>
  One engine object. \<open>name\<close> and \<open>priority\<close> are the class attributes, \<open>initialized\<close> and
  \<open>status\<close> the instance attributes \<open>_initialized\<close> and \<open>_status\<close> of \<open>TTSEngineBase\<close>.
  The remaining fields are what the plugin finds in its environment, following the shape that
  \<open>MeloEngine\<close> and \<open>EdgeEngine\<close> share:
  \<^item> \<open>installed\<close> is the module flag \<open>MELO_AVAILABLE\<close> / \<open>EDGE_AVAILABLE\<close>, with the two
    messages that \<open>check_available\<close> returns;
  \<^item> \<open>model_loads\<close> tells whether the body of \<open>initialize\<close> runs without an exception
    (always true for \<open>EdgeEngine\<close>, whose \<open>initialize\<close> loads nothing);
  \<^item> \<open>init_failed_msg\<close> is the message of the \<open>RuntimeError\<close> that the plugin's own
    \<open>synthesize\<close> raises when its lazy \<open>initialize\<close> fails;
  \<^item> \<open>backend_synth\<close> is the vendor call: it returns a result or raises.
\<close>

record 'f engine =
  name :: string
  priority :: int
  initialized :: bool
  status :: engine_status
  installed :: bool
  installed_msg :: string
  missing_msg :: string
  model_loads :: bool
  init_failed_msg :: string
  backend_synth :: "string \<Rightarrow> string \<Rightarrow> 'f \<Rightarrow> py_exn + 'f synthesis_result"

definition engine_check_available :: "'f engine \<Rightarrow> (bool \<times> string) \<times> 'f engine" where
  "engine_check_available e =
     (if installed e then ((True, installed_msg e), e\<lparr>status := AVAILABLE\<rparr>)
      else ((False, missing_msg e), e\<lparr>status := NOT_INSTALLED\<rparr>))"

definition engine_initialize :: "'f engine \<Rightarrow> bool \<times> 'f engine" where
  "engine_initialize e =
     (if \<not> installed e then (False, e)
      else if model_loads e then (True, e\<lparr>initialized := True\<rparr>)
      else (False, e\<lparr>status := ERROR\<rparr>))"

definition engine_synthesize ::
  "'f engine \<Rightarrow> string \<Rightarrow> string \<Rightarrow> 'f \<Rightarrow> (py_exn + 'f synthesis_result) \<times> 'f engine" where
  "engine_synthesize e text v speed =
     (if \<not> initialized e then
        (case engine_initialize e of
           (False, e') \<Rightarrow> (Inl (RuntimeError (init_failed_msg e)), e')
         | (True, e') \<Rightarrow> (backend_synth e' text v speed, e'))
      else (backend_synth e text v speed, e))"

section \<open>The registry (engines/registry.py)\<close>

text \<open>
  Engine objects live in a store and are referred to by address, because \<open>_engines\<close> and
  \<open>_active_engine\<close> hold references to the same mutable objects. \<open>calls\<close> records, oldest
  first, every engine method that the registry invokes. The registry's \<open>print\<close> lines are not
  modelled.
\<close>

datatype call = CheckAvailable nat | Initialize nat | Synthesize nat | Cleanup nat

record 'f registry =
  engines :: "(string, nat) dict"
  active_engine :: "nat option"
  heap :: "'f engine list"
  calls :: "call list"

definition call_check_available :: "nat \<Rightarrow> 'f registry \<Rightarrow> (bool \<times> string) \<times> 'f registry" where
  "call_check_available a s =
     (case engine_check_available (heap s ! a) of
        (r, e') \<Rightarrow> (r, s\<lparr>heap := (heap s)[a := e'], calls := calls s @ [CheckAvailable a]\<rparr>))"

definition call_initialize :: "nat \<Rightarrow> 'f registry \<Rightarrow> bool \<times> 'f registry" where
  "call_initialize a s =
     (case engine_initialize (heap s ! a) of
        (r, e') \<Rightarrow> (r, s\<lparr>heap := (heap s)[a := e'], calls := calls s @ [Initialize a]\<rparr>))"

definition call_synthesize ::
  "nat \<Rightarrow> string \<Rightarrow> string \<Rightarrow> 'f \<Rightarrow> 'f registry \<Rightarrow> (py_exn + 'f synthesis_result) \<times> 'f registry" where
  "call_synthesize a text v speed s =
     (case engine_synthesize (heap s ! a) text v speed of
        (r, e') \<Rightarrow> (r, s\<lparr>heap := (heap s)[a := e'], calls := calls s @ [Synthesize a]\<rparr>))"

text \<open>\<open>register_engine\<close>: \<open>e\<close> is the object that \<open>engine_class()\<close> constructs.\<close>

definition register_engine :: "'f engine \<Rightarrow> 'f registry \<Rightarrow> 'f registry" where
  "register_engine e s =
     s\<lparr>heap := heap s @ [e], engines := dict_set (engines s) (name e) (length (heap s))\<rparr>"

definition get_engine :: "string \<Rightarrow> 'f registry \<Rightarrow> nat option" where
  "get_engine n s = dict_get (engines s) n"

text \<open>The \<open>for\<close> loop of \<open>get_available_engines\<close>, with the list \<open>available\<close> as accumulator.\<close>

fun available_loop :: "nat list \<Rightarrow> nat list \<Rightarrow> 'f registry \<Rightarrow> nat list \<times> 'f registry" where
  "available_loop [] available s = (available, s)"
| "available_loop (a # as) available s =
     (case call_check_available a s of
        ((is_available, _), s') \<Rightarrow>
          available_loop as (if is_available then available @ [a] else available) s')"

text \<open>
  \<open>sorted(available, key=lambda e: -e.priority)\<close>: Python's \<open>sorted\<close> is stable, as is the
  insertion sort \<open>sort_key\<close>.
\<close>

definition get_available_engines :: "'f registry \<Rightarrow> nat list \<times> 'f registry" where
  "get_available_engines s =
     (case available_loop (dict_values (engines s)) [] s of
        (available, s') \<Rightarrow> (sort_key (\<lambda>a. - priority (heap s' ! a)) available, s'))"

definition get_best_engine :: "'f registry \<Rightarrow> nat option \<times> 'f registry" where
  "get_best_engine s =
     (case get_available_engines s of
        (available, s') \<Rightarrow> (case available of [] \<Rightarrow> (None, s') | a # _ \<Rightarrow> (Some a, s')))"

definition set_active_engine :: "string \<Rightarrow> 'f registry \<Rightarrow> bool \<times> 'f registry" where
  "set_active_engine n s =
     (case dict_get (engines s) n of
        None \<Rightarrow> (False, s)
      | Some a \<Rightarrow>
          (case call_check_available a s of
             ((is_available, msg), s') \<Rightarrow>
               if \<not> is_available then (False, s')
               else (True, s'\<lparr>active_engine := Some a\<rparr>)))"

definition no_engine_msg :: string where
  "no_engine_msg =
     ''No TTS engine available. Install one: pip install melotts / '' @
     [CHR 0xEC, CHR 0x97, CHR 0x94, CHR 0xEC, CHR 0xA7, CHR 0x84, CHR 0x20,
      CHR 0xEC, CHR 0x97, CHR 0x86, CHR 0xEC, CHR 0x9D, CHR 0x8C]"

definition unknown_engine_msg :: "string \<Rightarrow> string" where
  "unknown_engine_msg n =
     ''Unknown engine / '' @
     [CHR 0xEC, CHR 0x95, CHR 0x8C, CHR 0x20, CHR 0xEC, CHR 0x88, CHR 0x98, CHR 0x20,
      CHR 0xEC, CHR 0x97, CHR 0x86, CHR 0xEB, CHR 0x8A, CHR 0x94, CHR 0x20,
      CHR 0xEC, CHR 0x97, CHR 0x94, CHR 0xEC, CHR 0xA7, CHR 0x84] @ '': '' @ n"

definition get_active_engine :: "'f registry \<Rightarrow> (py_exn + nat) \<times> 'f registry" where
  "get_active_engine s =
     (case active_engine s of
        Some a \<Rightarrow> (Inr a, s)
      | None \<Rightarrow>
          (case get_best_engine s of
             (None, s') \<Rightarrow> (Inl (RuntimeError no_engine_msg), s')
           | (Some best, s') \<Rightarrow> (Inr best, s'\<lparr>active_engine := Some best\<rparr>)))"

text \<open>
  \<open>synthesize\<close>, in two parts: \<open>resolve_engine\<close> is the \<open>if engine: ... else: ...\<close> at its
  head, which picks the engine, and \<open>synthesize\<close> the whole method. The argument \<open>engine\<close> is
  \<open>Optional[str]\<close>; \<open>if engine:\<close> is false for \<open>None\<close> and for the empty string. The
  result of \<open>eng.initialize()\<close> is not bound to anything in the source, and so \<open>snd\<close> drops
  it here.
\<close>

definition resolve_engine :: "string option \<Rightarrow> 'f registry \<Rightarrow> (py_exn + nat) \<times> 'f registry" where
  "resolve_engine engine s =
     (case engine of
        Some (c # cs) \<Rightarrow>
          (case get_engine (c # cs) s of
             None \<Rightarrow> (Inl (ValueError (unknown_engine_msg (c # cs))), s)
           | Some eng \<Rightarrow> (Inr eng, s))
      | _ \<Rightarrow> get_active_engine s)"

definition synthesize ::
  "string \<Rightarrow> string \<Rightarrow> 'f \<Rightarrow> string option \<Rightarrow> 'f registry \<Rightarrow>
     (py_exn + 'f synthesis_result) \<times> 'f registry" where
  "synthesize text v speed engine s =
     (case resolve_engine engine s of
        (Inl err, s1) \<Rightarrow> (Inl err, s1)
      | (Inr eng, s1) \<Rightarrow>
          (let s2 = (if \<not> initialized (heap s1 ! eng) then snd (call_initialize eng s1) else s1)
           in call_synthesize eng text v speed s2))"

section \<open>The caching engine (server/tts_engine.py)\<close>

datatype tts_backend = MELO | COSYVOICE | EDGE | AUTO

fun backend_value :: "tts_backend \<Rightarrow> string" where
  "backend_value MELO = ''melo''"
| "backend_value COSYVOICE = ''cosyvoice''"
| "backend_value EDGE = ''edge''"
| "backend_value AUTO = ''auto''"

text \<open>
  \<open>TTSConfig\<close> and \<open>TTSResult\<close>. Fields whose names also occur in \<open>SynthesisResult\<close> carry a
  prefix (\<open>cfg_voice\<close> is \<open>TTSConfig.voice\<close>, \<open>res_voice\<close> is \<open>TTSResult.voice\<close>, and so on).
\<close>

record 'f tts_config =
  cfg_backend :: tts_backend
  cfg_voice :: string
  cfg_speed :: 'f
  cfg_sample_rate :: int
  cache_enabled :: bool
  cache_dir :: string

record 'f tts_result =
  res_audio_bytes :: bytes
  res_sample_rate :: int
  res_duration :: 'f
  res_text :: string
  res_voice :: string
  res_backend :: string
  res_cached :: bool
  processing_time_ms :: 'f

text \<open>
  The state that \<open>KoreanTTSEngine\<close> works on: its attributes \<open>config\<close>, \<open>_initialized\<close>,
  \<open>_available_backends\<close> and \<open>_cache\<close>, and the files of the file system, addressed by
  directory and file name (\<open>Path(cache_dir) / f"{key}.wav"\<close>). Reading and writing a file is taken
  to succeed.
\<close>

record 'f tts_state =
  config :: "'f tts_config"
  tts_initialized :: bool
  available_backends :: "string list"
  cache :: "(string, bytes) dict"
  disk :: "(string \<times> string) \<rightharpoonup> bytes"

text \<open>
  What the engine calls outside the repository:
  \<^item> \<open>md5_hexdigest c\<close> is \<open>hashlib.md5(c.encode()).hexdigest()\<close>;
  \<^item> \<open>float_str\<close> is the text that an f-string gives a float, \<open>float_truthy\<close> its truth value
    (false for zero), \<open>float_zero\<close> the literal \<open>0.0\<close>, \<open>float_div n d\<close> the quotient
    \<open>n / d\<close> of an array length by a sample rate;
  \<^item> \<open>sf_read b\<close> is \<open>sf.read(io.BytesIO(b))\<close>, giving the number of frames and the sample rate,
    or raising on bytes that are no audio file;
  \<^item> \<open>elapsed_ms\<close> is the measured \<open>(time.time() - start) * 1000\<close>;
  \<^item> \<open>melo_loads\<close>, \<open>cosyvoice_loads\<close>, \<open>edge_imports\<close> tell whether the three \<open>try\<close> blocks of
    \<open>initialize\<close> run through;
  \<^item> \<open>synthesize_melo\<close>, \<open>synthesize_cosyvoice\<close>, \<open>synthesize_edge\<close> are the three vendor
    calls, giving WAV bytes and a sample rate, or raising.
\<close>

record 'f env =
  md5_hexdigest :: "string \<Rightarrow> string"
  float_str :: "'f \<Rightarrow> string"
  float_truthy :: "'f \<Rightarrow> bool"
  float_zero :: 'f
  float_div :: "nat \<Rightarrow> int \<Rightarrow> py_exn + 'f"
  sf_read :: "bytes \<Rightarrow> py_exn + (nat \<times> int)"
  elapsed_ms :: 'f
  melo_loads :: bool
  cosyvoice_loads :: bool
  edge_imports :: bool
  synthesize_melo :: "string \<Rightarrow> string \<Rightarrow> 'f \<Rightarrow> py_exn + (bytes \<times> int)"
  synthesize_cosyvoice :: "string \<Rightarrow> string \<Rightarrow> 'f \<Rightarrow> py_exn + (bytes \<times> int)"
  synthesize_edge :: "string \<Rightarrow> string \<Rightarrow> 'f \<Rightarrow> py_exn + (bytes \<times> int)"

definition tts_initialize :: "'f env \<Rightarrow> 'f tts_state \<Rightarrow> bool \<times> 'f tts_state" where
  "tts_initialize ev s =
     (let b1 = available_backends s @ (if melo_loads ev then [''melo''] else []);
          b2 = b1 @ (if cosyvoice_loads ev then [''cosyvoice''] else []);
          b3 = b2 @ (if edge_imports ev then [''edge''] else [])
      in (0 < length b3, s\<lparr>available_backends := b3, tts_initialized := (0 < length b3)\<rparr>))"

definition no_backend_msg :: string where
  "no_backend_msg =
     ''No TTS backend available / TTS '' @
     [CHR 0xEB, CHR 0xB0, CHR 0xB1, CHR 0xEC, CHR 0x97, CHR 0x94, CHR 0xEB, CHR 0x93, CHR 0x9C,
      CHR 0x20, CHR 0xEC, CHR 0x97, CHR 0x86, CHR 0xEC, CHR 0x9D, CHR 0x8C]"

definition backend_unavailable_msg :: "string \<Rightarrow> string" where
  "backend_unavailable_msg b =
     ''Backend '' @ [CHR 0x27] @ b @ [CHR 0x27] @ '' not available / '' @
     [CHR 0xEC, CHR 0x82, CHR 0xAC, CHR 0xEC, CHR 0x9A, CHR 0xA9, CHR 0x20,
      CHR 0xEB, CHR 0xB6, CHR 0x88, CHR 0xEA, CHR 0xB0, CHR 0x80]"

definition unknown_backend_msg :: "string \<Rightarrow> string" where
  "unknown_backend_msg b =
     ''Unknown backend / '' @
     [CHR 0xEC, CHR 0x95, CHR 0x8C, CHR 0x20, CHR 0xEC, CHR 0x88, CHR 0x98, CHR 0x20,
      CHR 0xEC, CHR 0x97, CHR 0x86, CHR 0xEB, CHR 0x8A, CHR 0x94, CHR 0x20,
      CHR 0xEB, CHR 0xB0, CHR 0xB1, CHR 0xEC, CHR 0x97, CHR 0x94, CHR 0xEB, CHR 0x93, CHR 0x9C] @
     '': '' @ b"

definition tts_init_failed_msg :: string where
  "tts_init_failed_msg =
     ''TTS initialization failed / TTS '' @
     [CHR 0xEC, CHR 0xB4, CHR 0x88, CHR 0xEA, CHR 0xB8, CHR 0xB0, CHR 0xED, CHR 0x99, CHR 0x94,
      CHR 0x20, CHR 0xEC, CHR 0x8B, CHR 0xA4, CHR 0xED, CHR 0x8C, CHR 0xA8]"

definition get_backend :: "'f tts_state \<Rightarrow> py_exn + string" where
  "get_backend s =
     (if cfg_backend (config s) = AUTO then
        (case filter (\<lambda>b. b \<in> set (available_backends s)) [''melo'', ''cosyvoice'', ''edge''] of
           b # _ \<Rightarrow> Inr b
         | [] \<Rightarrow> Inl (RuntimeError no_backend_msg))
      else
        (let b = backend_value (cfg_backend (config s))
         in if b \<notin> set (available_backends s) then Inl (RuntimeError (backend_unavailable_msg b))
            else Inr b))"

text \<open>
  \<open>_cache_key\<close>, \<open>_get_cached\<close> and \<open>_set_cache\<close> (a leading underscore is not allowed in
  an Isabelle name). \<open>cache_key\<close> keeps the receiver \<open>self\<close> as an argument.
\<close>

definition cache_key :: "'f env \<Rightarrow> 'f tts_state \<Rightarrow> string \<Rightarrow> string \<Rightarrow> 'f \<Rightarrow> string" where
  "cache_key ev self text v speed =
     (let content = text @ ''|'' @ v @ ''|'' @ float_str ev speed
      in md5_hexdigest ev content)"

definition cache_path :: "'f tts_state \<Rightarrow> string \<Rightarrow> string \<times> string" where
  "cache_path s key = (cache_dir (config s), key @ ''.wav'')"

definition get_cached :: "'f tts_state \<Rightarrow> string \<Rightarrow> bytes option" where
  "get_cached s key =
     (if \<not> cache_enabled (config s) then None
      else case dict_get (cache s) key of
             Some b \<Rightarrow> Some b
           | None \<Rightarrow>
               (case disk s (cache_path s key) of
                  Some b \<Rightarrow> Some b
                | None \<Rightarrow> None))"

definition set_cache :: "string \<Rightarrow> bytes \<Rightarrow> 'f tts_state \<Rightarrow> 'f tts_state" where
  "set_cache key audio s =
     (if \<not> cache_enabled (config s) then s
      else
        (let s1 = (if length (cache s) < 1000 then s\<lparr>cache := dict_set (cache s) key audio\<rparr> else s)
         in s1\<lparr>disk := (disk s1)(cache_path s1 key \<mapsto> audio)\<rparr>))"

text \<open>
  Python's \<open>or\<close> on an optional string and on an optional float: \<open>voice or self.config.voice\<close>
  falls back for \<open>None\<close> and for the empty string, \<open>speed or self.config.speed\<close> for
  \<open>None\<close> and for zero.
\<close>

definition str_or :: "string option \<Rightarrow> string \<Rightarrow> string" where
  "str_or x dflt = (case x of Some (c # cs) \<Rightarrow> c # cs | _ \<Rightarrow> dflt)"

definition float_or :: "'f env \<Rightarrow> 'f option \<Rightarrow> 'f \<Rightarrow> 'f" where
  "float_or ev x dflt = (case x of Some y \<Rightarrow> if float_truthy ev y then y else dflt | None \<Rightarrow> dflt)"

text \<open>
  \<open>KoreanTTSEngine.synthesize\<close> (named \<open>tts_synthesize\<close>, the registry's method being
  \<open>synthesize\<close>). \<open>if cached_audio:\<close> is false for \<open>None\<close> and for empty bytes.
\<close>

definition run_backend ::
  "'f env \<Rightarrow> string \<Rightarrow> string \<Rightarrow> string \<Rightarrow> 'f \<Rightarrow> py_exn + (bytes \<times> int)" where
  "run_backend ev b text v speed =
     (if b = ''melo'' then synthesize_melo ev text v speed
      else if b = ''cosyvoice'' then synthesize_cosyvoice ev text v speed
      else if b = ''edge'' then synthesize_edge ev text v speed
      else Inl (RuntimeError (unknown_backend_msg b)))"

definition tts_synthesize ::
  "'f env \<Rightarrow> string \<Rightarrow> string option \<Rightarrow> 'f option \<Rightarrow> 'f tts_state \<Rightarrow>
     (py_exn + 'f tts_result) \<times> 'f tts_state" where
  "tts_synthesize ev text voice_arg speed_arg s =
     (case (if \<not> tts_initialized s then tts_initialize ev s else (True, s)) of
        (False, s1) \<Rightarrow> (Inl (RuntimeError tts_init_failed_msg), s1)
      | (True, s1) \<Rightarrow>
          (let v = str_or voice_arg (cfg_voice (config s1));
               speed = float_or ev speed_arg (cfg_speed (config s1));
               key = cache_key ev s1 text v speed
           in case get_cached s1 key of
                Some (b # bs) \<Rightarrow>
                  (case sf_read ev (b # bs) of
                     Inl err \<Rightarrow> (Inl err, s1)
                   | Inr (n, sr) \<Rightarrow>
                       (case float_div ev n sr of
                          Inl err \<Rightarrow> (Inl err, s1)
                        | Inr d \<Rightarrow>
                            (Inr \<lparr>res_audio_bytes = b # bs, res_sample_rate = sr, res_duration = d,
                                  res_text = text, res_voice = v, res_backend = ''cache'',
                                  res_cached = True, processing_time_ms = float_zero ev\<rparr>, s1)))
              | _ \<Rightarrow>
                  (case get_backend s1 of
                     Inl err \<Rightarrow> (Inl err, s1)
                   | Inr backend \<Rightarrow>
                       (case run_backend ev backend text v speed of
                          Inl err \<Rightarrow> (Inl err, s1)
                        | Inr (audio, rate) \<Rightarrow>
                            (case sf_read ev audio of
                               Inl err \<Rightarrow> (Inl err, s1)
                             | Inr (n, _) \<Rightarrow>
                                 (case float_div ev n rate of
                                    Inl err \<Rightarrow> (Inl err, s1)
                                  | Inr d \<Rightarrow>
                                      (Inr \<lparr>res_audio_bytes = audio, res_sample_rate = rate,
                                            res_duration = d, res_text = text, res_voice = v,
                                            res_backend = backend, res_cached = False,
                                            processing_time_ms = elapsed_ms ev\<rparr>,
                                       set_cache key audio s1)))))))"

section \<open>Example objects\<close>

text \<open>
  A plugin object as its constructor leaves it (\<open>TTSEngineBase.__init__\<close> sets
  \<open>_initialized = False\<close> and \<open>_status = NOT_INSTALLED\<close>), and the registry as
  \<open>EngineRegistry.__init__\<close> leaves it. In the examples a float is stood in for by an integer.
\<close>

definition new_engine ::
  "string \<Rightarrow> int \<Rightarrow> bool \<Rightarrow> bool \<Rightarrow> (string \<Rightarrow> string \<Rightarrow> 'f \<Rightarrow> py_exn + 'f synthesis_result) \<Rightarrow>
     'f engine" where
  "new_engine n p inst loads synth =
     \<lparr>name = n, priority = p, initialized = False, status = NOT_INSTALLED,
      installed = inst, installed_msg = n @ '' is installed'', missing_msg = n @ '' not installed'',
      model_loads = loads, init_failed_msg = n @ '' initialization failed'', backend_synth = synth\<rparr>"

definition empty_registry :: "'f registry" where
  "empty_registry = \<lparr>engines = [], active_engine = None, heap = [], calls = []\<rparr>"

definition beep :: "string \<Rightarrow> string \<Rightarrow> int \<Rightarrow> py_exn + int synthesis_result" where
  "beep text v speed =
     Inr \<lparr>audio_bytes = [0x52, 0x49, 0x46, 0x46], sample_rate = 24000, duration = 1, voice = v,
          cached = False\<rparr>"

definition broken :: "string \<Rightarrow> string \<Rightarrow> int \<Rightarrow> py_exn + int synthesis_result" where
  "broken text v speed = Inl (OtherError ''ConnectionError'' ''network unreachable'')"

text \<open>Three installed engines, registered with priorities 10, 80 and 20, in this order.\<close>

definition three_engines :: "int registry" where
  "three_engines =
     register_engine (new_engine ''edge'' 20 True True beep)
       (register_engine (new_engine ''melo'' 80 True True beep)
          (register_engine (new_engine ''basic'' 10 True True beep) empty_registry))"

text \<open>
  Two installed engines; \<open>chosen\<close> is the registry after its first resolution, and \<open>stale\<close>
  the same registry once the chosen engine (at address 0) has stopped being installed.
\<close>

definition two_engines :: "int registry" where
  "two_engines =
     register_engine (new_engine ''edge'' 20 True True beep)
       (register_engine (new_engine ''melo'' 80 True True beep) empty_registry)"

definition chosen :: "int registry" where
  "chosen = snd (get_active_engine two_engines)"

definition stale :: "int registry" where
  "stale = chosen\<lparr>heap := (heap chosen)[0 := (heap chosen ! 0)\<lparr>installed := False\<rparr>]\<rparr>"

text \<open>
  The registry of \<open>chosen\<close> (whose active engine was cached by a resolution, never set by
  \<open>set_active_engine\<close>) once no engine is installed any more, with an empty call record.
\<close>

definition unavailable_cached :: "int registry" where
  "unavailable_cached =
     chosen\<lparr>heap := map (\<lambda>e. e\<lparr>installed := False\<rparr>) (heap chosen), calls := []\<rparr>"

text \<open>
  Three registrations of engines of equal priority, the third under the name of the first: the
  engines at addresses 1 and 2 are registered in the end, the one at address 2 later than the one
  at address 1.
\<close>

definition reregistered :: "int registry" where
  "reregistered =
     register_engine (new_engine ''melo'' 50 True True beep)
       (register_engine (new_engine ''edge'' 50 True True beep)
          (register_engine (new_engine ''melo'' 50 True True beep) empty_registry))"

text \<open>Two engines of which none is installed.\<close>

definition none_installed :: "int registry" where
  "none_installed =
     register_engine (new_engine ''edge'' 20 False True beep)
       (register_engine (new_engine ''melo'' 80 False True beep) empty_registry)"

text \<open>An installed engine whose model fails to load, and one whose vendor call raises.\<close>

definition load_fails :: "int registry" where
  "load_fails = register_engine (new_engine ''melo'' 80 True False beep) empty_registry"

definition net_down :: "int registry" where
  "net_down = register_engine (new_engine ''edge'' 20 True True broken) empty_registry"

text \<open>
  A cache environment and three cache states: a fresh one, one whose memory tier holds 1000
  entries, each with its file on disk, and the same with an entry for the key \<open>k\<close> among them.
\<close>

definition example_env :: "int env" where
  "example_env =
     \<lparr>md5_hexdigest = (\<lambda>c. c), float_str = (\<lambda>x. if x = 1 then ''1.0'' else ''2.0''),
      float_truthy = (\<lambda>x. x \<noteq> 0), float_zero = 0,
      float_div = (\<lambda>n d. if d = 0 then Inl (OtherError ''ZeroDivisionError'' ''division by zero'')
                          else Inr (int n div d)),
      sf_read = (\<lambda>b. if b = [] then Inl (OtherError ''LibsndfileError'' ''unknown format'')
                      else Inr (length b, 24000)),
      elapsed_ms = 5, melo_loads = False, cosyvoice_loads = False, edge_imports = True,
      synthesize_melo = (\<lambda>t v x. Inl (OtherError ''AttributeError'' ''no model'')),
      synthesize_cosyvoice = (\<lambda>t v x. Inl (OtherError ''AttributeError'' ''no model'')),
      synthesize_edge = (\<lambda>t v x. Inr ([0x52, 0x49, 0x46, 0x46], 24000))\<rparr>"

definition example_config :: "int tts_config" where
  "example_config =
     \<lparr>cfg_backend = AUTO, cfg_voice = ''KR'', cfg_speed = 1, cfg_sample_rate = 24000,
      cache_enabled = True, cache_dir = ''/app/audio_cache''\<rparr>"

definition fresh_state :: "int tts_state" where
  "fresh_state =
     \<lparr>config = example_config, tts_initialized = False, available_backends = [], cache = [],
      disk = Map.empty\<rparr>"

definition filler :: "(string, bytes) dict" where
  "filler = map (\<lambda>i. (replicate (Suc i) (CHR ''x''), [0x01])) [0..<999]"

definition on_disk :: "(string, bytes) dict \<Rightarrow> (string \<times> string) \<rightharpoonup> bytes" where
  "on_disk d = (\<lambda>(dir, file). if dir = ''/app/audio_cache''
                               then map_of (map (\<lambda>(k, b). (k @ ''.wav'', b)) d) file else None)"

definition full_state :: "int tts_state" where
  "full_state =
     \<lparr>config = example_config, tts_initialized = True, available_backends = [''edge''],
      cache = (''k'', [0x01]) # filler, disk = on_disk ((''k'', [0x01]) # filler)\<rparr>"

definition full_state_without_k :: "int tts_state" where
  "full_state_without_k =
     \<lparr>config = example_config, tts_initialized = True, available_backends = [''edge''],
      cache = (''y'', [0x01]) # filler, disk = on_disk ((''y'', [0x01]) # filler)\<rparr>"

section \<open>Properties of the registry\<close>

subsection \<open>What a call of \<open>check_available\<close> changes\<close>

lemma heap_update_field:
  assumes "f e' = f (h ! a)"
  shows "f ((h[a := e']) ! b) = f (h ! b)"
proof (cases "a < length h")
  case True
  then show ?thesis using assms by (simp add: nth_list_update)
next
  case False
  then have "h[a := e'] = h" by (intro list_update_beyond) simp
  then show ?thesis by simp
qed

lemma check_available_result:
  "fst (call_check_available a s) = fst (engine_check_available (heap s ! a))"
  by (simp add: call_check_available_def split: prod.split)

lemma check_available_installed:
  "fst (fst (engine_check_available e)) = installed e"
  by (simp add: engine_check_available_def)

lemma check_available_calls:
  "calls (snd (call_check_available a s)) = calls s @ [CheckAvailable a]"
  by (simp add: call_check_available_def split: prod.split)

lemma check_available_frame:
  "engines (snd (call_check_available a s)) = engines s"
  "active_engine (snd (call_check_available a s)) = active_engine s"
  by (simp_all add: call_check_available_def split: prod.split)

lemma check_available_installed_kept:
  "installed (heap (snd (call_check_available a s)) ! b) = installed (heap s ! b)"
  by (simp add: call_check_available_def engine_check_available_def heap_update_field split: prod.split)

lemma check_available_priority_kept:
  "priority (heap (snd (call_check_available a s)) ! b) = priority (heap s ! b)"
  by (simp add: call_check_available_def engine_check_available_def heap_update_field split: prod.split)

lemma check_available_initialized_kept:
  "initialized (heap (snd (call_check_available a s)) ! b) = initialized (heap s ! b)"
  by (simp add: call_check_available_def engine_check_available_def heap_update_field split: prod.split)

lemma available_loop_result:
  "fst (available_loop as acc s) = acc @ filter (\<lambda>a. installed (heap s ! a)) as"
proof (induction as arbitrary: acc s)
  case Nil
  then show ?case by simp
next
  case (Cons a as)
  obtain ok msg s' where c: "call_check_available a s = ((ok, msg), s')"
    by (metis surj_pair)
  have ok: "ok = installed (heap s ! a)"
    using check_available_result [of a s] check_available_installed [of "heap s ! a"] c by (metis fst_conv)
  have kept: "\<And>b. installed (heap s' ! b) = installed (heap s ! b)"
    using check_available_installed_kept [of a s] c by simp
  show ?case using Cons.IH [of _ s'] c ok kept by simp
qed


lemma available_loop_frame:
  "engines (snd (available_loop as acc s)) = engines s \<and>
   active_engine (snd (available_loop as acc s)) = active_engine s"
proof (induction as arbitrary: acc s)
  case Nil
  then show ?case by simp
next
  case (Cons a as)
  obtain r s' where c: "call_check_available a s = (r, s')"
    by (metis surj_pair)
  have "engines s' = engines s \<and> active_engine s' = active_engine s"
    using check_available_frame [of a s] c by simp
  then show ?case using Cons.IH [of _ s'] c by (simp split: prod.split)
qed

lemma available_loop_heap_kept:
  "priority (heap (snd (available_loop as acc s)) ! b) = priority (heap s ! b) \<and>
   installed (heap (snd (available_loop as acc s)) ! b) = installed (heap s ! b) \<and>
   initialized (heap (snd (available_loop as acc s)) ! b) = initialized (heap s ! b)"
proof (induction as arbitrary: acc s)
  case Nil
  then show ?case by simp
next
  case (Cons a as)
  obtain r s' where c: "call_check_available a s = (r, s')"
    by (metis surj_pair)
  have "priority (heap s' ! b) = priority (heap s ! b) \<and>
        installed (heap s' ! b) = installed (heap s ! b) \<and>
        initialized (heap s' ! b) = initialized (heap s ! b)"
    using check_available_priority_kept [of a s b] check_available_installed_kept [of a s b]
      check_available_initialized_kept [of a s b] c by simp
  then show ?case using Cons.IH [of _ s'] c by (simp split: prod.split)
qed

lemma get_available_engines_eq:
  "fst (get_available_engines s) =
     sort_key (\<lambda>a. - priority (heap s ! a))
       (filter (\<lambda>a. installed (heap s ! a)) (dict_values (engines s)))"
proof -
  obtain av s' where l: "available_loop (dict_values (engines s)) [] s = (av, s')"
    by (metis surj_pair)
  have av: "av = filter (\<lambda>a. installed (heap s ! a)) (dict_values (engines s))"
    using available_loop_result [of "dict_values (engines s)" "[]" s] l by simp
  have "\<And>b. priority (heap s' ! b) = priority (heap s ! b)"
    using available_loop_heap_kept [of "dict_values (engines s)" "[]" s] l by simp
  then show ?thesis using l av by (simp add: get_available_engines_def)
qed

lemma get_best_engine_eq:
  "fst (get_best_engine s) =
     (case fst (get_available_engines s) of [] \<Rightarrow> None | a # _ \<Rightarrow> Some a)"
  by (simp add: get_best_engine_def split: prod.split list.split)

lemma best_engine_cases:
  "case fst (get_best_engine s) of
      None \<Rightarrow> \<forall>a \<in> set (dict_values (engines s)). \<not> installed (heap s ! a)
    | Some b \<Rightarrow> b \<in> set (dict_values (engines s)) \<and> installed (heap s ! b) \<and>
        (\<forall>a \<in> set (dict_values (engines s)).
           installed (heap s ! a) \<longrightarrow> priority (heap s ! a) \<le> priority (heap s ! b))"
proof -
  let ?key = "\<lambda>a. - priority (heap s ! a)"
  let ?av = "filter (\<lambda>a. installed (heap s ! a)) (dict_values (engines s))"
  let ?r = "fst (get_available_engines s)"
  have r: "?r = sort_key ?key ?av" by (rule get_available_engines_eq)
  have s1: "set ?r = {a \<in> set (dict_values (engines s)). installed (heap s ! a)}"
    unfolding r by auto
  have "sorted (map ?key ?r)" unfolding r by (rule sorted_sort_key)
  then have s2: "sorted_wrt (\<lambda>a b. priority (heap s ! a) \<ge> priority (heap s ! b)) ?r"
    by (simp add: sorted_map)
  show ?thesis
  proof (cases ?r)
    case Nil
    then have "set ?r = {}" by simp
    then show ?thesis using s1 Nil by (auto simp: get_best_engine_eq)
  next
    case (Cons b bs)
    have b: "b \<in> set ?r" using Cons by simp
    have "\<forall>a \<in> set ?r. priority (heap s ! a) \<le> priority (heap s ! b)"
      using s2 Cons by auto
    then show ?thesis using s1 b Cons by (auto simp: get_best_engine_eq)
  qed
qed

lemma dict_set_fresh:
  "k \<notin> set (dict_keys d) \<Longrightarrow> dict_set d k v = d @ [(k, v)]"
  by (induction d) (auto simp: dict_keys_def)

lemma register_engine_order:
  "name e \<notin> set (dict_keys (engines s)) \<Longrightarrow>
     dict_values (engines (register_engine e s)) = dict_values (engines s) @ [length (heap s)]"
  by (simp add: register_engine_def dict_set_fresh dict_values_def)


lemmas registry_examples = three_engines_def two_engines_def chosen_def stale_def none_installed_def
  load_fails_def net_down_def register_engine_def new_engine_def empty_registry_def

lemmas registry_code = get_available_engines_def get_best_engine_def get_active_engine_def
  call_check_available_def engine_check_available_def dict_values_def dict_get_def


subsection \<open>Resolution of the active engine\<close>



lemma get_best_engine_state:
  "snd (get_best_engine s) = snd (available_loop (dict_values (engines s)) [] s)"
  by (simp add: get_best_engine_def get_available_engines_def split: prod.split list.split)



lemma get_best_engine_frame:
  "engines (snd (get_best_engine s)) = engines s \<and>
   active_engine (snd (get_best_engine s)) = active_engine s"
  unfolding get_best_engine_state by (rule available_loop_frame)



text \<open>
  Claim C1, as stated, fails. In \<open>two_engines\<close> the first resolution chooses the engine at
  address 0. Once that engine is no longer installed (\<open>stale\<close>), \<open>get_active_engine\<close> still
  returns it, although its \<open>check_available()\<close> returns false and the engine at address 1 is
  available and would be selected by \<open>get_best_engine\<close>.
\<close>

theorem get_active_engine_returns_cached_counterexample:
  "fst (get_active_engine two_engines) = Inr 0 \<and>
   active_engine stale = Some 0 \<and>
   \<not> fst (fst (engine_check_available (heap stale ! 0))) \<and>
   fst (fst (engine_check_available (heap stale ! 1))) \<and>
   fst (get_best_engine stale) = Some 1 \<and>
   fst (get_active_engine stale) = Inr 0"
  by (simp add: registry_examples registry_code)

text \<open>
  Claim C1, amended. When an active engine is set, \<open>get_active_engine\<close> returns it and leaves
  the registry as it is: no \<open>check_available\<close> is called, whether the engine is still
  available or not. Only when no active engine is set does it resolve: it raises
  \<open>RuntimeError\<close> when no registered engine is available, and otherwise returns and caches an
  available engine of the highest priority.
\<close>

theorem get_active_engine_sticky:
  "(active_engine s = Some a \<longrightarrow> get_active_engine s = (Inr a, s)) \<and>
   (active_engine s = None \<longrightarrow>
     (case fst (get_active_engine s) of
        Inl err \<Rightarrow>
          err = RuntimeError no_engine_msg \<and>
          (\<forall>b \<in> set (dict_values (engines s)). \<not> fst (fst (engine_check_available (heap s ! b)))) \<and>
          active_engine (snd (get_active_engine s)) = None
      | Inr b \<Rightarrow>
          b \<in> set (dict_values (engines s)) \<and>
          fst (fst (engine_check_available (heap s ! b))) \<and>
          (\<forall>c \<in> set (dict_values (engines s)).
             fst (fst (engine_check_available (heap s ! c))) \<longrightarrow>
               priority (heap s ! c) \<le> priority (heap s ! b)) \<and>
          active_engine (snd (get_active_engine s)) = Some b))"
proof (intro conjI impI)
  assume "active_engine s = Some a"
  then show "get_active_engine s = (Inr a, s)" by (simp add: get_active_engine_def)
next
  assume none: "active_engine s = None"
  obtain r s' where g: "get_best_engine s = (r, s')" by (metis surj_pair)
  have kept: "active_engine s' = None"
    using get_best_engine_frame [of s] g none by simp
  show "case fst (get_active_engine s) of
        Inl err \<Rightarrow>
          err = RuntimeError no_engine_msg \<and>
          (\<forall>b \<in> set (dict_values (engines s)). \<not> fst (fst (engine_check_available (heap s ! b)))) \<and>
          active_engine (snd (get_active_engine s)) = None
      | Inr b \<Rightarrow>
          b \<in> set (dict_values (engines s)) \<and>
          fst (fst (engine_check_available (heap s ! b))) \<and>
          (\<forall>c \<in> set (dict_values (engines s)).
             fst (fst (engine_check_available (heap s ! c))) \<longrightarrow>
               priority (heap s ! c) \<le> priority (heap s ! b)) \<and>
          active_engine (snd (get_active_engine s)) = Some b"
  proof (cases r)
    case None
    then show ?thesis
      unfolding check_available_installed
      using best_engine_cases [of s] g none kept by (simp add: get_active_engine_def)
  next
    case (Some b)
    then show ?thesis
      unfolding check_available_installed
      using best_engine_cases [of s] g none by (simp add: get_active_engine_def)
  qed
qed

theorem get_active_engine_sticky_witness:
  "active_engine stale = Some 0 \<and> get_active_engine stale = (Inr 0, stale) \<and>
   \<not> installed (heap stale ! 0) \<and>
   active_engine two_engines = None \<and> fst (get_active_engine two_engines) = Inr 0 \<and>
   dict_values (engines two_engines) = [0, 1]"
proof -
  have a: "active_engine stale = Some 0" by (simp add: registry_examples registry_code)
  have "get_active_engine stale = (Inr 0, stale)"
    using get_active_engine_sticky [of stale 0] a by simp
  moreover have "\<not> installed (heap stale ! 0) \<and>
   active_engine two_engines = None \<and> fst (get_active_engine two_engines) = Inr 0 \<and>
   dict_values (engines two_engines) = [0, 1]" by (simp add: registry_examples registry_code)
  ultimately show ?thesis using a by simp
qed

subsection \<open>Synthesis through the registry\<close>



lemmas synthesize_code = synthesize_def resolve_engine_def get_engine_def call_initialize_def
  call_synthesize_def engine_initialize_def engine_synthesize_def


text \<open>
  Claim C4, as stated, fails. \<open>set_active_engine\<close> raises nothing: for a name that is not
  registered (\<open>cosyvoice\<close>) and for a registered engine that is not available (\<open>melo\<close>) it
  returns the same value \<open>False\<close>, so the two failures are not distinct for the caller.
\<close>

theorem set_active_engine_same_failure_counterexample:
  "dict_get (engines none_installed) ''cosyvoice'' = None \<and>
   dict_get (engines none_installed) ''melo'' = Some 0 \<and>
   \<not> fst (fst (engine_check_available (heap none_installed ! 0))) \<and>
   fst (set_active_engine ''cosyvoice'' none_installed) = False \<and>
   fst (set_active_engine ''melo'' none_installed) = False"
  by (simp add: registry_examples registry_code set_active_engine_def)

text \<open>
  Claim C4, amended. \<open>set_active_engine\<close> returns a boolean. For an unregistered name it
  returns \<open>False\<close> and changes nothing. For a registered engine it calls that engine's
  \<open>check_available\<close> once and no other engine method; it returns \<open>False\<close> and keeps the
  active engine when the check fails, and returns \<open>True\<close> and makes the engine the active one
  when the check succeeds. In neither case does an engine become initialized.
\<close>

theorem set_active_engine_result:
  "(dict_get (engines s) n = None \<longrightarrow> set_active_engine n s = (False, s)) \<and>
   (\<forall>a. dict_get (engines s) n = Some a \<longrightarrow>
      fst (set_active_engine n s) = fst (fst (engine_check_available (heap s ! a))) \<and>
      active_engine (snd (set_active_engine n s)) =
        (if fst (fst (engine_check_available (heap s ! a))) then Some a else active_engine s) \<and>
      calls (snd (set_active_engine n s)) = calls s @ [CheckAvailable a] \<and>
      (\<forall>b. initialized (heap (snd (set_active_engine n s)) ! b) = initialized (heap s ! b)))"
proof (intro conjI allI impI)
  assume "dict_get (engines s) n = None"
  then show "set_active_engine n s = (False, s)" by (simp add: set_active_engine_def)
next
  fix a
  assume reg: "dict_get (engines s) n = Some a"
  obtain ok msg s' where c: "call_check_available a s = ((ok, msg), s')"
    by (metis surj_pair)
  have ok: "ok = fst (fst (engine_check_available (heap s ! a)))"
    using check_available_result [of a s] c by (metis fst_conv)
  have calls: "calls s' = calls s @ [CheckAvailable a]"
    using check_available_calls [of a s] c by simp
  have act: "active_engine s' = active_engine s"
    using check_available_frame [of a s] c by simp
  have init: "\<And>b. initialized (heap s' ! b) = initialized (heap s ! b)"
    using check_available_initialized_kept [of a s] c by simp
  have res: "set_active_engine n s = (if ok then (True, s'\<lparr>active_engine := Some a\<rparr>) else (False, s'))"
    using reg c by (simp add: set_active_engine_def)
  show "fst (set_active_engine n s) = fst (fst (engine_check_available (heap s ! a)))"
    using res ok by simp
  show "active_engine (snd (set_active_engine n s)) =
        (if fst (fst (engine_check_available (heap s ! a))) then Some a else active_engine s)"
    using res ok act by simp
  show "calls (snd (set_active_engine n s)) = calls s @ [CheckAvailable a]"
    using res calls by simp
  show "initialized (heap (snd (set_active_engine n s)) ! b) = initialized (heap s ! b)" for b
    using res init by simp
qed

theorem set_active_engine_result_witness:
  "dict_get (engines three_engines) ''edge'' = Some 2 \<and>
   fst (fst (engine_check_available (heap three_engines ! 2))) \<and>
   fst (set_active_engine ''edge'' three_engines) = True \<and>
   active_engine (snd (set_active_engine ''edge'' three_engines)) = Some 2 \<and>
   calls (snd (set_active_engine ''edge'' three_engines)) = [CheckAvailable 2] \<and>
   dict_get (engines three_engines) ''cosyvoice'' = None \<and>
   set_active_engine ''cosyvoice'' three_engines = (False, three_engines)"
proof -
  have h: "dict_get (engines three_engines) ''edge'' = Some 2 \<and>
   fst (fst (engine_check_available (heap three_engines ! 2))) \<and>
   dict_get (engines three_engines) ''cosyvoice'' = None \<and> calls three_engines = []"
    by (simp add: registry_examples registry_code)
  show ?thesis
    using set_active_engine_result [of three_engines "''edge''"]
      set_active_engine_result [of three_engines "''cosyvoice''"] h
    by simp
qed

text \<open>
  Claim C5 describes what the code should do and does not. At \<open>load_fails\<close> the only engine is
  installed and not initialized, and its \<open>initialize\<close> returns \<open>False\<close>. The registry calls
  \<open>initialize\<close> once, drops the result and goes on to call the engine's \<open>synthesize\<close>; the
  error that comes back is the one that the engine's own \<open>synthesize\<close> raises after a second,
  equally failing, \<open>initialize\<close>.
\<close>

theorem synthesize_ignores_failed_initialize:
  "fst (get_active_engine load_fails) = Inr 0 \<and>
   \<not> initialized (heap (snd (get_active_engine load_fails)) ! 0) \<and>
   fst (call_initialize 0 (snd (get_active_engine load_fails))) = False \<and>
   calls (snd (synthesize ''hi'' ''KR'' 1 None load_fails)) =
     [CheckAvailable 0, Initialize 0, Synthesize 0] \<and>
   fst (synthesize ''hi'' ''KR'' 1 None load_fails) =
     Inl (RuntimeError ''melo initialization failed'')"
  by (simp add: registry_examples registry_code synthesize_code)




section \<open>Properties of the cache\<close>

subsection \<open>The cache key\<close>


subsection \<open>Store and lookup\<close>

lemma dict_get_dict_set_same: "dict_get (dict_set d k v) k = Some v"
  by (induction d) (auto simp: dict_get_def)



lemma set_cache_config: "config (set_cache key audio s) = config s"
  by (simp add: set_cache_def Let_def)

lemma set_cache_initialized: "tts_initialized (set_cache key audio s) = tts_initialized s"
  by (simp add: set_cache_def Let_def)

lemma set_cache_path: "cache_path (set_cache key audio s) k = cache_path s k"
  by (simp add: cache_path_def set_cache_config)

lemma set_cache_disk:
  "cache_enabled (config s) \<Longrightarrow>
     disk (set_cache key audio s) = (disk s)(cache_path s key \<mapsto> audio)"
  by (simp add: set_cache_def Let_def cache_path_def)

lemma set_cache_memory:
  "cache_enabled (config s) \<Longrightarrow>
     cache (set_cache key audio s) =
       (if length (cache s) < 1000 then dict_set (cache s) key audio else cache s)"
  by (simp add: set_cache_def Let_def)

lemma get_cached_after_set_cache:
  assumes "cache_enabled (config s)"
    and "length (cache s) < 1000 \<or> dict_get (cache s) key = None"
  shows "get_cached (set_cache key audio s) key = Some audio"
proof (cases "length (cache s) < 1000")
  case True
  then show ?thesis
    using assms(1) by (simp add: get_cached_def set_cache_config set_cache_memory dict_get_dict_set_same)
next
  case False
  then have "dict_get (cache s) key = None" using assms(2) by simp
  then show ?thesis
    using assms(1) False
    by (simp add: get_cached_def set_cache_config set_cache_memory set_cache_disk set_cache_path)
qed

lemma length_filler: "length filler = 999"
  by (simp add: filler_def)

lemma filler_keys: "k \<in> set (dict_keys filler) \<Longrightarrow> k \<noteq> [] \<and> set k = {CHR ''x''}"
  by (auto simp: filler_def dict_keys_def)

lemma distinct_filler: "distinct (dict_keys filler)"
proof -
  have "inj_on (\<lambda>i. replicate (Suc i) (CHR ''x'')) (set [0..<999])"
    by (rule inj_onI) (metis length_replicate nat.inject)
  then show ?thesis by (simp add: filler_def dict_keys_def distinct_map comp_def)
qed

text \<open>
  The state \<open>full_state\<close> is well-formed: its memory tier holds 1000 distinct keys, and each
  of them has its file on disk.
\<close>

lemma k_fresh: "''k'' \<notin> set (dict_keys filler)"
  using filler_keys [of "''k''"] by auto

lemma full_state_on_disk:
  "k \<in> set (dict_keys (cache full_state)) \<Longrightarrow> disk full_state (cache_path full_state k) \<noteq> None"
proof -
  assume "k \<in> set (dict_keys (cache full_state))"
  then have "k \<in> fst ` set ((''k'', [0x01]) # filler)"
    by (simp add: full_state_def dict_keys_def)
  then obtain b where "(k, b) \<in> set ((''k'', [0x01]) # filler)"
    by force
  then have "(k @ ''.wav'', b) \<in> set (map (\<lambda>(k, b). (k @ ''.wav'', b)) ((''k'', [0x01]) # filler))"
    by force
  then have "map_of (map (\<lambda>(k, b). (k @ ''.wav'', b)) ((''k'', [0x01]) # filler)) (k @ ''.wav'') \<noteq> None"
    by (metis (no_types, lifting) map_of_eq_None_iff fst_conv image_eqI)
  then show ?thesis
    by (simp add: full_state_def on_disk_def cache_path_def example_config_def)
qed

text \<open>
  Claim C8, as stated, fails. In \<open>full_state\<close> the memory tier holds 1000 entries, one of them
  for the key \<open>k\<close>. A store of new bytes under \<open>k\<close> goes to disk only, and the lookup that
  follows is served by the memory tier, with the old bytes.
\<close>

theorem lookup_after_store_stale_counterexample:
  "cache_enabled (config full_state) \<and>
   length (cache full_state) = 1000 \<and>
   distinct (dict_keys (cache full_state)) \<and>
   get_cached (set_cache ''k'' [0x09] full_state) ''k'' = Some [0x01] \<and>
   disk (set_cache ''k'' [0x09] full_state) (cache_path full_state ''k'') = Some [0x09]"
proof -
  have "distinct (dict_keys (cache full_state))"
    using distinct_filler k_fresh by (simp add: full_state_def dict_keys_def)
  then show ?thesis
    by (simp add: full_state_def length_filler get_cached_def set_cache_def example_config_def
      dict_get_def cache_path_def)
qed

text \<open>
  Claim C8, amended. With caching enabled, a lookup of \<open>key\<close> right after a store of
  \<open>(key, audio)\<close> returns exactly \<open>audio\<close>, provided that the memory tier held fewer than
  1000 entries or no entry for \<open>key\<close> when the store was made. Below capacity the memory tier
  serves the lookup, at capacity the disk tier does.
\<close>

theorem lookup_after_store:
  assumes "cache_enabled (config s)"
    and "length (cache s) < 1000 \<or> dict_get (cache s) key = None"
  shows "get_cached (set_cache key audio s) key = Some audio \<and>
         (length (cache s) < 1000 \<longrightarrow> dict_get (cache (set_cache key audio s)) key = Some audio) \<and>
         (\<not> length (cache s) < 1000 \<longrightarrow>
            dict_get (cache (set_cache key audio s)) key = None \<and>
            disk (set_cache key audio s) (cache_path (set_cache key audio s) key) = Some audio)"
  using assms get_cached_after_set_cache [of s key audio]
  by (auto simp: set_cache_memory set_cache_disk set_cache_path dict_get_dict_set_same)

lemma k_not_in_memory: "dict_get (cache full_state_without_k) ''k'' = None"
  by (auto simp: full_state_without_k_def filler_def dict_get_def map_of_eq_None_iff)

theorem lookup_after_store_witness:
  "cache_enabled (config fresh_state) \<and> length (cache fresh_state) < 1000 \<and>
   get_cached (set_cache ''k'' [0x09] fresh_state) ''k'' = Some [0x09] \<and>
   cache_enabled (config full_state_without_k) \<and> length (cache full_state_without_k) = 1000 \<and>
   dict_get (cache full_state_without_k) ''k'' = None \<and>
   get_cached (set_cache ''k'' [0x09] full_state_without_k) ''k'' = Some [0x09]"
proof -
  have h1: "cache_enabled (config fresh_state) \<and> length (cache fresh_state) < 1000"
    by (simp add: fresh_state_def example_config_def)
  have h2: "cache_enabled (config full_state_without_k) \<and> length (cache full_state_without_k) = 1000"
    by (simp add: full_state_without_k_def example_config_def length_filler)
  show ?thesis
    using lookup_after_store [of fresh_state "''k''" "[0x09]"]
      lookup_after_store [of full_state_without_k "''k''" "[0x09]"] h1 h2 k_not_in_memory
    by simp
qed

subsection \<open>Write-through and the capacity bound\<close>

lemma stores_config:
  "config (fold (\<lambda>(k, a). set_cache k a) ops s) = config s"
  by (induction ops arbitrary: s) (auto simp: set_cache_config)

lemma stores_path:
  "cache_path (fold (\<lambda>(k, a). set_cache k a) ops s) k = cache_path s k"
  by (simp add: cache_path_def stores_config)






subsection \<open>Requests with the same pre-hash text\<close>

lemma tts_synthesize_hit:
  assumes "tts_initialized s"
    and "v = str_or voice_arg (cfg_voice (config s))"
    and "speed = float_or ev speed_arg (cfg_speed (config s))"
    and "get_cached s (cache_key ev s text v speed) = Some audio"
    and "audio \<noteq> []"
    and "sf_read ev audio = Inr (n, sr)"
    and "float_div ev n sr = Inr d"
  shows "tts_synthesize ev text voice_arg speed_arg s =
           (Inr \<lparr>res_audio_bytes = audio, res_sample_rate = sr, res_duration = d,
                 res_text = text, res_voice = v, res_backend = ''cache'',
                 res_cached = True, processing_time_ms = float_zero ev\<rparr>, s)"
proof -
  obtain b bs where a: "audio = b # bs" using assms(5) by (cases audio) auto
  show ?thesis
    using assms(1,4,6,7) unfolding a tts_synthesize_def assms(2) assms(3)
    by (simp add: Let_def)
qed

lemma tts_initialize_frame:
  "config (snd (tts_initialize ev s)) = config s \<and>
   cache (snd (tts_initialize ev s)) = cache s \<and>
   disk (snd (tts_initialize ev s)) = disk s \<and>
   tts_initialized (snd (tts_initialize ev s)) = fst (tts_initialize ev s)"
  by (simp add: tts_initialize_def Let_def)

lemma tts_synthesize_returns:
  assumes "tts_synthesize ev text voice_arg speed_arg s = (Inr r, s1)"
    and "v = str_or voice_arg (cfg_voice (config s))"
    and "speed = float_or ev speed_arg (cfg_speed (config s))"
  shows "\<exists>s0. tts_initialized s0 \<and> config s0 = config s \<and> cache s0 = cache s \<and>
              (s1 = s0 \<and> get_cached s0 (cache_key ev s0 text v speed) = Some (res_audio_bytes r) \<or>
               s1 = set_cache (cache_key ev s0 text v speed) (res_audio_bytes r) s0 \<and>
               get_cached s0 (cache_key ev s0 text v speed) \<in> {None, Some []})"
proof -
  obtain ok s0 where i: "(if \<not> tts_initialized s then tts_initialize ev s else (True, s)) = (ok, s0)"
    by (metis surj_pair)
  have ok: "ok" using assms(1) i by (cases ok) (simp_all add: tts_synthesize_def)
  have fr: "tts_initialized s0 \<and> config s0 = config s \<and> cache s0 = cache s"
    using i ok tts_initialize_frame [of ev s] by (auto split: if_splits)
  let ?key = "cache_key ev s0 text v speed"
  have run: "tts_synthesize ev text voice_arg speed_arg s =
    (case get_cached s0 ?key of
                Some (b # bs) \<Rightarrow>
                  (case sf_read ev (b # bs) of
                     Inl err \<Rightarrow> (Inl err, s0)
                   | Inr (n, sr) \<Rightarrow>
                       (case float_div ev n sr of
                          Inl err \<Rightarrow> (Inl err, s0)
                        | Inr d \<Rightarrow>
                            (Inr \<lparr>res_audio_bytes = b # bs, res_sample_rate = sr, res_duration = d,
                                  res_text = text, res_voice = v, res_backend = ''cache'',
                                  res_cached = True, processing_time_ms = float_zero ev\<rparr>, s0)))
              | _ \<Rightarrow>
                  (case get_backend s0 of
                     Inl err \<Rightarrow> (Inl err, s0)
                   | Inr backend \<Rightarrow>
                       (case run_backend ev backend text v speed of
                          Inl err \<Rightarrow> (Inl err, s0)
                        | Inr (audio, rate) \<Rightarrow>
                            (case sf_read ev audio of
                               Inl err \<Rightarrow> (Inl err, s0)
                             | Inr (n, _) \<Rightarrow>
                                 (case float_div ev n rate of
                                    Inl err \<Rightarrow> (Inl err, s0)
                                  | Inr d \<Rightarrow>
                                      (Inr \<lparr>res_audio_bytes = audio, res_sample_rate = rate,
                                            res_duration = d, res_text = text, res_voice = v,
                                            res_backend = backend, res_cached = False,
                                            processing_time_ms = elapsed_ms ev\<rparr>,
                                       set_cache ?key audio s0))))))"
  proof -
    have cfg: "config s0 = config s" using fr by simp
      have v0: "v = str_or voice_arg (cfg_voice (config s0))"
        and sp0: "speed = float_or ev speed_arg (cfg_speed (config s0))"
        using assms(2,3) cfg by simp_all
      show ?thesis
        unfolding tts_synthesize_def i v0 sp0 Let_def using ok by simp
  qed
  have "s1 = s0 \<and> get_cached s0 ?key = Some (res_audio_bytes r) \<or>
        s1 = set_cache ?key (res_audio_bytes r) s0 \<and> get_cached s0 ?key \<in> {None, Some []}"
    using assms(1) unfolding run
    by (auto split: option.splits list.splits sum.splits prod.splits)
  then show ?thesis using fr by blast
qed

lemma memory_miss:
  assumes "cache_enabled (config s)"
    and "get_cached s key \<in> {None, Some []}"
    and "\<forall>k. dict_get (cache s) k \<noteq> Some []"
  shows "dict_get (cache s) key = None"
proof (cases "dict_get (cache s) key")
  case None
  then show ?thesis .
next
  case (Some x)
  then have "get_cached s key = Some x" using assms(1) by (simp add: get_cached_def)
  then have "x = []" using assms(2) by simp
  then show ?thesis using Some assms(3) by simp
qed

text \<open>
  Claim C10. The requests (text \<open>a|b\<close>, voice \<open>c\<close>) and (text \<open>a\<close>, voice \<open>b|c\<close>) differ,
  but at equal speed \<open>cache_key\<close> gives both the same key, since both are formatted to the
  same text \<open>a|b|c|speed\<close> before hashing. So they share one cache entry: with caching
  enabled and no empty entry in the memory tier, once the first request has returned audio
  (non-empty, and readable by \<open>sf.read\<close> with a duration), the second request is answered
  from the cache with the first request's audio, and no backend is called for it.
\<close>

theorem colliding_requests_share_entry:
  assumes "cache_enabled (config s)"
    and "tts_synthesize ev ''a|b'' (Some ''c'') speed_arg s = (Inr r1, s1)"
    and "res_audio_bytes r1 \<noteq> []"
    and "\<forall>k. dict_get (cache s) k \<noteq> Some []"
    and "sf_read ev (res_audio_bytes r1) = Inr (n, sr)"
    and "float_div ev n sr = Inr d"
  shows "(''a|b'', ''c'') \<noteq> (''a'', ''b|c'') \<and>
         cache_key ev s ''a|b'' ''c'' speed = cache_key ev s ''a'' ''b|c'' speed \<and>
         tts_synthesize ev ''a'' (Some ''b|c'') speed_arg s1 =
           (Inr \<lparr>res_audio_bytes = res_audio_bytes r1, res_sample_rate = sr, res_duration = d,
                 res_text = ''a'', res_voice = ''b|c'', res_backend = ''cache'',
                 res_cached = True, processing_time_ms = float_zero ev\<rparr>, s1)"
proof -
  define spd where "spd = float_or ev speed_arg (cfg_speed (config s))"
  have v1: "''c'' = str_or (Some ''c'') (cfg_voice (config s))"
    by (simp add: str_or_def)
  obtain s0 where s0: "tts_initialized s0" "config s0 = config s" "cache s0 = cache s"
    and cases: "s1 = s0 \<and> get_cached s0 (cache_key ev s0 ''a|b'' ''c'' spd) = Some (res_audio_bytes r1) \<or>
      s1 = set_cache (cache_key ev s0 ''a|b'' ''c'' spd) (res_audio_bytes r1) s0 \<and>
      get_cached s0 (cache_key ev s0 ''a|b'' ''c'' spd) \<in> {None, Some []}"
    using tts_synthesize_returns [OF assms(2) v1 spd_def] by blast
  let ?key = "cache_key ev s0 ''a|b'' ''c'' spd"
  have same_key: "cache_key ev s1 ''a'' ''b|c'' spd = ?key"
    by (simp add: cache_key_def)
  have s1: "tts_initialized s1 \<and> config s1 = config s \<and> get_cached s1 ?key = Some (res_audio_bytes r1)"
    using cases
  proof
    assume "s1 = s0 \<and> get_cached s0 ?key = Some (res_audio_bytes r1)"
    then show ?thesis using s0 by simp
  next
    assume stored: "s1 = set_cache ?key (res_audio_bytes r1) s0 \<and> get_cached s0 ?key \<in> {None, Some []}"
    have en: "cache_enabled (config s0)" using assms(1) s0 by simp
    have "dict_get (cache s0) ?key = None"
      using en stored assms(4) s0(3) by (intro memory_miss) simp_all
    then have "get_cached (set_cache ?key (res_audio_bytes r1) s0) ?key = Some (res_audio_bytes r1)"
      using en by (intro get_cached_after_set_cache) simp_all
    then show ?thesis using stored s0 by (simp add: set_cache_config set_cache_initialized)
  qed
  have v2: "''b|c'' = str_or (Some ''b|c'') (cfg_voice (config s1))"
    by (simp add: str_or_def)
  have sp2: "spd = float_or ev speed_arg (cfg_speed (config s1))"
    using s1 by (simp add: spd_def)
  have hit: "get_cached s1 (cache_key ev s1 ''a'' ''b|c'' spd) = Some (res_audio_bytes r1)"
    using s1 same_key by simp
  have second: "tts_synthesize ev ''a'' (Some ''b|c'') speed_arg s1 =
           (Inr \<lparr>res_audio_bytes = res_audio_bytes r1, res_sample_rate = sr, res_duration = d,
                 res_text = ''a'', res_voice = ''b|c'', res_backend = ''cache'',
                 res_cached = True, processing_time_ms = float_zero ev\<rparr>, s1)"
    using s1 v2 sp2 hit assms(3,5,6) by (intro tts_synthesize_hit) simp_all
  have "cache_key ev s ''a|b'' ''c'' speed = cache_key ev s ''a'' ''b|c'' speed"
    by (simp add: cache_key_def)
  then show ?thesis using second by simp
qed

lemmas cache_code = tts_synthesize_def tts_initialize_def get_cached_def get_backend_def
  run_backend_def set_cache_def cache_key_def cache_path_def str_or_def float_or_def dict_get_def

lemmas cache_examples = example_env_def fresh_state_def example_config_def

theorem colliding_requests_share_entry_witness:
  "cache_enabled (config fresh_state) \<and>
   fst (tts_synthesize example_env ''a|b'' (Some ''c'') (Some 1) fresh_state) =
     Inr \<lparr>res_audio_bytes = [0x52, 0x49, 0x46, 0x46], res_sample_rate = 24000, res_duration = 0,
          res_text = ''a|b'', res_voice = ''c'', res_backend = ''edge'', res_cached = False,
          processing_time_ms = 5\<rparr> \<and>
   cache_key example_env fresh_state ''a|b'' ''c'' 1 = ''a|b|c|1.0'' \<and>
   cache_key example_env fresh_state ''a'' ''b|c'' 1 = ''a|b|c|1.0'' \<and>
   fst (tts_synthesize example_env ''a'' (Some ''b|c'') (Some 1)
          (snd (tts_synthesize example_env ''a|b'' (Some ''c'') (Some 1) fresh_state))) =
     Inr \<lparr>res_audio_bytes = [0x52, 0x49, 0x46, 0x46], res_sample_rate = 24000, res_duration = 0,
          res_text = ''a'', res_voice = ''b|c'', res_backend = ''cache'', res_cached = True,
          processing_time_ms = 0\<rparr>"
proof -
  let ?r1 = "\<lparr>res_audio_bytes = [0x52, 0x49, 0x46, 0x46], res_sample_rate = 24000,
          res_duration = 0, res_text = ''a|b'', res_voice = ''c'', res_backend = ''edge'',
          res_cached = False, processing_time_ms = 5\<rparr> :: int tts_result"
  let ?first = "tts_synthesize example_env ''a|b'' (Some ''c'') (Some 1) fresh_state"
  have first: "fst ?first = Inr ?r1"
    by (simp add: cache_code cache_examples)
  then have run: "?first = (Inr ?r1, snd ?first)"
    by (metis prod.collapse)
  have h: "cache_enabled (config fresh_state) \<and> res_audio_bytes ?r1 \<noteq> [] \<and>
     (\<forall>k. dict_get (cache fresh_state) k \<noteq> Some []) \<and>
     sf_read example_env (res_audio_bytes ?r1) = Inr (4, 24000) \<and>
     float_div example_env 4 24000 = Inr 0 \<and> float_zero example_env = 0 \<and>
     cache_key example_env fresh_state ''a|b'' ''c'' 1 = ''a|b|c|1.0'' \<and>
     cache_key example_env fresh_state ''a'' ''b|c'' 1 = ''a|b|c|1.0''"
    by (simp add: cache_code cache_examples)
  show ?thesis
    using colliding_requests_share_entry [of fresh_state example_env "Some 1" ?r1 "snd ?first"
        4 24000 0 1] run h first
    by simp
qed

end
